theory Spec2Isabelle
  imports Complex_Main
begin

section \<open>Values and errors\<close>

text \<open>
  The module \<^verbatim>\<open>utils.py\<close> computes on torch tensors of floating-point numbers and on
  numpy arrays of integer labels.

  A tensor entry is modelled by \<open>fl\<close>: a finite number, carried as an exact real, or one
  of the three special values of IEEE 754 arithmetic. The arithmetic below follows the
  IEEE rules for the special values (division by zero gives an infinity or NaN, NaN
  propagates, every comparison with NaN is false) and is exact on finite numbers:
  rounding, overflow of finite values and the sign of zero are outside the model.
  A matrix is the list of its rows.
\<close>

datatype fl = Fin real | PInf | NInf | NaN

datatype py_error = ValueError | IndexError | AssertionError | RuntimeError

fun fadd :: "fl \<Rightarrow> fl \<Rightarrow> fl" where
  "fadd NaN y = NaN"
| "fadd x NaN = NaN"
| "fadd PInf NInf = NaN"
| "fadd NInf PInf = NaN"
| "fadd PInf y = PInf"
| "fadd x PInf = PInf"
| "fadd NInf y = NInf"
| "fadd x NInf = NInf"
| "fadd (Fin a) (Fin b) = Fin (a + b)"



text \<open>\<^verbatim>\<open>torch.pow(x, 2)\<close> and \<^verbatim>\<open>x ** 2\<close>.\<close>

fun fsq :: "fl \<Rightarrow> fl" where
  "fsq (Fin a) = Fin (a * a)"
| "fsq PInf = PInf"
| "fsq NInf = PInf"
| "fsq NaN = NaN"

text \<open>
  Division of tensors never raises: a zero divisor gives an infinity, or NaN for
  \<open>0 / 0\<close>.
\<close>

fun fdiv :: "fl \<Rightarrow> fl \<Rightarrow> fl" where
  "fdiv NaN y = NaN"
| "fdiv x NaN = NaN"
| "fdiv (Fin a) (Fin b) =
     (if b \<noteq> 0 then Fin (a / b)
      else if 0 < a then PInf else if a < 0 then NInf else NaN)"
| "fdiv (Fin a) PInf = Fin 0"
| "fdiv (Fin a) NInf = Fin 0"
| "fdiv PInf (Fin b) = (if 0 \<le> b then PInf else NInf)"
| "fdiv NInf (Fin b) = (if 0 \<le> b then NInf else PInf)"
| "fdiv PInf y = NaN"
| "fdiv NInf y = NaN"

text \<open>\<open>fgt x y\<close> is the comparison \<^verbatim>\<open>x > y\<close>.\<close>

fun fgt :: "fl \<Rightarrow> fl \<Rightarrow> bool" where
  "fgt NaN y = False"
| "fgt x NaN = False"
| "fgt (Fin a) (Fin b) = (b < a)"
| "fgt PInf PInf = False"
| "fgt PInf y = True"
| "fgt NInf y = False"
| "fgt (Fin a) PInf = False"
| "fgt (Fin a) NInf = True"

text \<open>The minimum of two entries as \<^verbatim>\<open>torch.min\<close> takes it: NaN propagates.\<close>

fun fmin :: "fl \<Rightarrow> fl \<Rightarrow> fl" where
  "fmin NaN y = NaN"
| "fmin x NaN = NaN"
| "fmin x y = (if fgt x y then y else x)"

text \<open>\<^verbatim>\<open>torch.sum\<close> over a list of entries.\<close>

definition fsum :: "fl list \<Rightarrow> fl" where
  "fsum xs = foldr fadd xs (Fin 0)"

text \<open>
  \<^verbatim>\<open>q.min()\<close> over all entries of a tensor: torch raises a RuntimeError on a tensor
  with no element.
\<close>

fun tensor_min :: "fl list \<Rightarrow> py_error + fl" where
  "tensor_min [] = Inl RuntimeError"
| "tensor_min (x # xs) = Inr (foldl fmin x xs)"

section \<open>Soft assignment: \<^verbatim>\<open>q_distribute\<close>\<close>



text \<open>Collecting the results of a list of fallible computations: the first error wins.\<close>

fun collect :: "('e + 'a) list \<Rightarrow> 'e + 'a list" where
  "collect [] = Inr []"
| "collect (Inl e # rs) = Inl e"
| "collect (Inr x # rs) = (case collect rs of Inl e \<Rightarrow> Inl e | Inr xs \<Rightarrow> Inr (x # xs))"


text \<open>\<^verbatim>\<open>(q.t() / torch.sum(q, 1)).t()\<close>: every row is divided by its own sum.\<close>

definition row_normalize :: "fl list list \<Rightarrow> fl list list" where
  "row_normalize q = map (\<lambda>row. map (\<lambda>x. fdiv x (fsum row)) row) q"


section \<open>Target distribution: \<^verbatim>\<open>target_distribution\<close>\<close>

text \<open>\<^verbatim>\<open>Q.sum(0)\<close>: the sum of column \<open>j\<close>.\<close>

definition col_sum :: "fl list list \<Rightarrow> nat \<Rightarrow> fl" where
  "col_sum Q j = fsum (map (\<lambda>row. row ! j) Q)"

text \<open>
  \<^verbatim>\<open>weight = Q ** 2 / Q.sum(0)\<close>: the entry in column \<open>j\<close> is divided by the sum of
  column \<open>j\<close>. Nothing is checked and nothing can raise.
\<close>

definition weight :: "fl list list \<Rightarrow> fl list list" where
  "weight Q = map (\<lambda>row. map (\<lambda>j. fdiv (fsq (row ! j)) (col_sum Q j)) [0..<length row]) Q"

definition target_distribution :: "fl list list \<Rightarrow> fl list list" where
  "target_distribution Q = row_normalize (weight Q)"

text \<open>Shape and content predicates for the statements.\<close>

definition is_matrix :: "nat \<Rightarrow> nat \<Rightarrow> 'a list list \<Rightarrow> bool" where
  "is_matrix n k M = (length M = n \<and> list_all (\<lambda>row. length row = k) M)"


definition positive_entries :: "fl list list \<Rightarrow> bool" where
  "positive_entries M = list_all (list_all (\<lambda>x. fgt x (Fin 0))) M"

definition row_stochastic :: "fl list list \<Rightarrow> bool" where
  "row_stochastic M = list_all (\<lambda>row. fsum row = Fin 1) M"

section \<open>Label alignment and scoring: \<^verbatim>\<open>cluster_acc\<close>\<close>

text \<open>
  Label arrays are numpy integer arrays, modelled as lists of \<open>int\<close> (the shift
  \<^verbatim>\<open>y_true - y_min\<close> is injective also where 64-bit arithmetic wraps, so overflow
  changes no statement below). A call of \<^verbatim>\<open>cluster_acc\<close> ends in one of three ways:
  an exception, the bare \<^verbatim>\<open>return\<close> after \<^verbatim>\<open>print('error')\<close>, which hands the caller
  \<^verbatim>\<open>None\<close>, or the pair \<^verbatim>\<open>(acc, f1_macro)\<close>.
\<close>

datatype outcome = Raises py_error | Returns_None | Returns "real \<times> real"

text \<open>
  What a call leaves behind: the contents of the array \<^verbatim>\<open>y_pred\<close> (line 107 writes
  into the caller's array), the lines printed, and the outcome.
\<close>

record call_result =
  y_pred_after :: "int list"
  printed :: "string list"
  outcome :: outcome

text \<open>\<^verbatim>\<open>np.min(y_true)\<close>: numpy raises a ValueError on an empty array.\<close>

fun np_min :: "int list \<Rightarrow> py_error + int" where
  "np_min [] = Inl ValueError"
| "np_min (y # ys) = Inr (foldl min y ys)"

text \<open>
  Lines 101 to 108. The loop runs over \<open>l1\<close>; \<open>l2\<close> is the list computed before
  the loop and \<open>ind\<close> the next position to overwrite. Writing past the end of a
  numpy array raises an IndexError; what was written before stays written.
\<close>

fun relabel :: "int list \<Rightarrow> int list \<Rightarrow> int list \<Rightarrow> nat \<Rightarrow> int list \<times> py_error option" where
  "relabel [] l2 y_pred ind = (y_pred, None)"
| "relabel (i # l1) l2 y_pred ind =
     (if i \<in> set l2 then relabel l1 l2 y_pred ind
      else if ind < length y_pred then relabel l1 l2 (y_pred[ind := i]) (Suc ind)
      else (y_pred, Some IndexError))"

text \<open>
  Lines 114 to 119. \<open>mps_of y_true c1\<close> is the list \<^verbatim>\<open>mps\<close> of the positions of
  \<open>c1\<close> in \<^verbatim>\<open>y_true\<close>. The inner comprehension reads \<^verbatim>\<open>y_pred[i1]\<close> for every
  position of \<^verbatim>\<open>mps\<close>, once per element of \<open>l2\<close>, and raises an IndexError when a
  position lies beyond the end of \<^verbatim>\<open>y_pred\<close>.
\<close>

definition mps_of :: "int list \<Rightarrow> int \<Rightarrow> nat list" where
  "mps_of y_true c1 = filter (\<lambda>i1. y_true ! i1 = c1) [0..<length y_true]"

definition cost_row :: "nat list \<Rightarrow> int list \<Rightarrow> int list \<Rightarrow> py_error + int list" where
  "cost_row mps l2 y_pred =
     (if l2 \<noteq> [] \<and> list_ex (\<lambda>i1. length y_pred \<le> i1) mps then Inl IndexError
      else Inr (map (\<lambda>c2. int (length (filter (\<lambda>i1. y_pred ! i1 = c2) mps))) l2))"

definition cost_matrix ::
  "int list \<Rightarrow> int list \<Rightarrow> int list \<Rightarrow> int list \<Rightarrow> py_error + int list list" where
  "cost_matrix l1 l2 y_true y_pred =
     collect (map (\<lambda>c1. cost_row (mps_of y_true c1) l2 y_pred) l1)"

text \<open>
  Lines 123 to 127. \<^verbatim>\<open>new_predict\<close> starts as zeros (float zeros in the code; the
  labels stored into it are integers, which a float holds exactly, so the array is
  modelled over \<open>int\<close>). \<open>assign\<close> is \<^verbatim>\<open>new_predict[ai] = c\<close> for the positions
  \<^verbatim>\<open>ai\<close> where \<^verbatim>\<open>y_pred\<close> holds \<open>c2\<close>. Reading \<^verbatim>\<open>indexes[i]\<close> or \<^verbatim>\<open>l2[...]\<close> out
  of range raises an IndexError.
\<close>

definition assign :: "int list \<Rightarrow> int \<Rightarrow> int \<Rightarrow> int list \<Rightarrow> int list" where
  "assign y_pred c2 c new_predict =
     map (\<lambda>(elm, old). if elm = c2 then c else old) (zip y_pred new_predict)"

fun remap ::
  "(nat \<times> int) list \<Rightarrow> (nat \<times> nat) list \<Rightarrow> int list \<Rightarrow> int list \<Rightarrow> int list
     \<Rightarrow> py_error + int list" where
  "remap [] indexes l2 y_pred new_predict = Inr new_predict"
| "remap ((i, c) # rest) indexes l2 y_pred new_predict =
     (if i < length indexes \<and> snd (indexes ! i) < length l2
      then remap rest indexes l2 y_pred
             (assign y_pred (l2 ! snd (indexes ! i)) c new_predict)
      else Inl IndexError)"

text \<open>
  The two scores are functions of scikit-learn, modelled from their documentation.
  \<^verbatim>\<open>accuracy_score\<close> raises a ValueError for arrays of different lengths and otherwise
  gives the fraction of positions where the two arrays agree.
  \<^verbatim>\<open>f1_score(average='macro')\<close> is the unweighted mean, over the labels that occur in
  either array, of \<open>2 tp / (2 tp + fp + fn)\<close>, taken as 0 where the denominator is 0.
\<close>

definition accuracy_score :: "int list \<Rightarrow> int list \<Rightarrow> py_error + real" where
  "accuracy_score y_true y_pred =
     (if length y_true \<noteq> length y_pred then Inl ValueError
      else Inr (real (length (filter (\<lambda>(a, b). a = b) (zip y_true y_pred)))
                / real (length y_true)))"

definition f1_of_label :: "int list \<Rightarrow> int list \<Rightarrow> int \<Rightarrow> real" where
  "f1_of_label y_true y_pred c =
     (let tp = length (filter (\<lambda>(a, b). a = c \<and> b = c) (zip y_true y_pred));
          fp = length (filter (\<lambda>(a, b). a \<noteq> c \<and> b = c) (zip y_true y_pred));
          fn = length (filter (\<lambda>(a, b). a = c \<and> b \<noteq> c) (zip y_true y_pred))
      in if 2 * tp + fp + fn = 0 then 0
         else real (2 * tp) / real (2 * tp + fp + fn))"

definition f1_score_macro :: "int list \<Rightarrow> int list \<Rightarrow> real" where
  "f1_score_macro y_true y_pred =
     (let labels = remdups (y_true @ y_pred)
      in sum_list (map (f1_of_label y_true y_pred) labels) / real (length labels))"

text \<open>
  Two library calls are parameters of the model. \<open>list_set\<close> is \<^verbatim>\<open>list(set(a))\<close>:
  the distinct elements of an array in the iteration order of a Python set.
  \<open>munkres\<close> is \<^verbatim>\<open>Munkres().compute\<close>: it takes the cost matrix as a list of rows and
  returns a list of (row, column) pairs.

  \<open>align\<close> is the function from line 109 on, where \<^verbatim>\<open>y_true\<close> is the shifted array.
\<close>

definition align ::
  "(int list \<Rightarrow> int list) \<Rightarrow> (int list list \<Rightarrow> (nat \<times> nat) list) \<Rightarrow> int list \<Rightarrow> int list
     \<Rightarrow> int list \<Rightarrow> string list \<times> outcome" where
  "align list_set munkres y_true l1 y_pred =
     (let l2 = list_set y_pred in
      if length l1 \<noteq> length l2 then ([''error''], Returns_None)
      else
        (case cost_matrix l1 l2 y_true y_pred of
           Inl e \<Rightarrow> ([], Raises e)
         | Inr cost \<Rightarrow>
             (let indexes = munkres (map (map uminus) cost) in
              case remap (enumerate 0 l1) indexes l2 y_pred (replicate (length y_pred) 0) of
                Inl e \<Rightarrow> ([], Raises e)
              | Inr new_predict \<Rightarrow>
                  (case accuracy_score y_true new_predict of
                     Inl e \<Rightarrow> ([], Raises e)
                   | Inr acc \<Rightarrow> ([], Returns (acc, f1_score_macro y_true new_predict))))))"

definition cluster_acc ::
  "(int list \<Rightarrow> int list) \<Rightarrow> (int list list \<Rightarrow> (nat \<times> nat) list) \<Rightarrow> int list \<Rightarrow> int list
     \<Rightarrow> call_result" where
  "cluster_acc list_set munkres y_true y_pred =
     (case np_min y_true of
        Inl e \<Rightarrow> \<lparr>y_pred_after = y_pred, printed = [], outcome = Raises e\<rparr>
      | Inr y_min \<Rightarrow>
          (let y_true' = map (\<lambda>y. y - y_min) y_true;
               l1 = list_set y_true';
               l2 = list_set y_pred;
               (y_pred', err) =
                  (if length l1 \<noteq> length l2 then relabel l1 l2 y_pred 0 else (y_pred, None))
           in case err of
                Some e \<Rightarrow> \<lparr>y_pred_after = y_pred', printed = [], outcome = Raises e\<rparr>
              | None \<Rightarrow>
                  (let (out, res) = align list_set munkres y_true' l1 y_pred'
                   in \<lparr>y_pred_after = y_pred', printed = out, outcome = res\<rparr>)))"

text \<open>
  The caller's view. Arrays live in a store, and the two arguments are references
  into it, possibly to the same array. \<^verbatim>\<open>y_true = y_true - y_min\<close> builds a new
  array and rebinds the local name before anything is written, so the call reads the
  contents of both arrays as they are on entry and writes only through \<^verbatim>\<open>y_pred\<close>.
\<close>

type_synonym store = "nat \<Rightarrow> int list"

definition cluster_acc_call ::
  "(int list \<Rightarrow> int list) \<Rightarrow> (int list list \<Rightarrow> (nat \<times> nat) list) \<Rightarrow> store \<Rightarrow> nat \<Rightarrow> nat
     \<Rightarrow> store \<times> string list \<times> outcome" where
  "cluster_acc_call list_set munkres s a_true a_pred =
     (let r = cluster_acc list_set munkres (s a_true) (s a_pred)
      in (s(a_pred := y_pred_after r), printed r, outcome r))"

text \<open>
  What the model assumes of the two library calls. A Python set lists each of its
  elements once. The solver, given a square matrix, returns one pair per row, in the
  order of the rows, the columns forming a permutation whose total cost is least
  among all permutations.
\<close>

definition list_set_ok :: "(int list \<Rightarrow> int list) \<Rightarrow> bool" where
  "list_set_ok list_set = (\<forall>xs. distinct (list_set xs) \<and> set (list_set xs) = set xs)"


definition total_cost :: "int list list \<Rightarrow> nat list \<Rightarrow> int" where
  "total_cost C s = sum_list (map (\<lambda>i. C ! i ! (s ! i)) [0..<length s])"


text \<open>
  One instance of each for concrete runs: the distinct elements in order of first
  occurrence, and the search through all permutations that keeps the first of least
  cost.
\<close>

fun insert_all :: "'a \<Rightarrow> 'a list \<Rightarrow> 'a list list" where
  "insert_all x [] = [[x]]"
| "insert_all x (y # ys) = (x # y # ys) # map ((#) y) (insert_all x ys)"

fun perms :: "'a list \<Rightarrow> 'a list list" where
  "perms [] = [[]]"
| "perms (x # xs) = concat (map (insert_all x) (perms xs))"

definition exhaustive_solver :: "int list list \<Rightarrow> (nat \<times> nat) list" where
  "exhaustive_solver C =
     zip [0..<length C] (arg_min_list (total_cost C) (perms [0..<length C]))"



section \<open>Auxiliary notions for the proofs\<close>

text \<open>
  \<open>posfin\<close>: a finite, strictly positive entry; \<open>fval\<close>: the number a finite entry
  carries; \<open>nonneg_or_special\<close>: what a sum of squares can be; \<open>nan_or_pinf\<close>: what
  a square divided by zero can be.
\<close>

definition posfin :: "fl \<Rightarrow> bool" where
  "posfin x = (case x of Fin a \<Rightarrow> 0 < a | _ \<Rightarrow> False)"

fun fval :: "fl \<Rightarrow> real" where
  "fval (Fin a) = a"
| "fval PInf = 0"
| "fval NInf = 0"
| "fval NaN = 0"


definition nan_or_pinf :: "fl \<Rightarrow> bool" where
  "nan_or_pinf x = (x = NaN \<or> x = PInf)"




text \<open>
  \<open>shifted\<close> is the array \<^verbatim>\<open>y_true - y_min\<close>; \<open>forget_f1\<close> keeps of an outcome its
  kind and the accuracy.
\<close>

definition shifted :: "int list \<Rightarrow> int list" where
  "shifted y_true = map (\<lambda>y. y - foldl min (hd y_true) (tl y_true)) y_true"




section \<open>Facts about the tensor arithmetic\<close>

lemma posfin_iff: "posfin x \<longleftrightarrow> (\<exists>a. x = Fin a \<and> 0 < a)"
  by (cases x) (auto simp: posfin_def)

lemma fsum_Nil [simp]: "fsum [] = Fin 0"
  by (simp add: fsum_def)
lemma fsum_Cons [simp]: "fsum (x # xs) = fadd x (fsum xs)"
  by (simp add: fsum_def)

lemma fsum_posfin:
  "list_all posfin xs \<Longrightarrow> fsum xs = Fin (sum_list (map fval xs)) \<and> 0 \<le> sum_list (map fval xs)"
  by (induction xs) (auto simp: posfin_iff)

lemma fsum_posfin_pos:
  "list_all posfin xs \<Longrightarrow> xs \<noteq> [] \<Longrightarrow> 0 < sum_list (map fval xs)"
  using fsum_posfin by (cases xs) (auto simp: posfin_iff intro: add_pos_nonneg)

lemma normalize_row:
  assumes "list_all posfin row" "row \<noteq> []"
  shows "fsum (map (\<lambda>x. fdiv x (fsum row)) row) = Fin 1"
    and "list_all posfin (map (\<lambda>x. fdiv x (fsum row)) row)"
proof -
  let ?S = "sum_list (map fval row)"
  have S: "fsum row = Fin ?S" "0 < ?S"
    using assms fsum_posfin fsum_posfin_pos by auto
  have each: "\<And>x. posfin x \<Longrightarrow> fdiv x (Fin ?S) = Fin (fval x / ?S) \<and> 0 < fval x / ?S"
    using S(2) by (auto simp: posfin_iff)
  have gen: "list_all posfin ys \<Longrightarrow>
      fsum (map (\<lambda>x. fdiv x (Fin ?S)) ys) = Fin (sum_list (map fval ys) / ?S)
      \<and> list_all posfin (map (\<lambda>x. fdiv x (Fin ?S)) ys)" for ys
  proof (induction ys)
    case Nil then show ?case by simp
  next
    case (Cons y ys)
    then show ?case using each[of y] by (auto simp: add_divide_distrib posfin_iff)
  qed
  from gen[OF assms(1)] S show "fsum (map (\<lambda>x. fdiv x (fsum row)) row) = Fin 1"
    and "list_all posfin (map (\<lambda>x. fdiv x (fsum row)) row)" by auto
qed


lemma fgt_fmin: "fgt (fmin x y) (Fin 0) \<longleftrightarrow> fgt x (Fin 0) \<and> fgt y (Fin 0)"
  by (cases x; cases y) auto

lemma fgt_foldl_fmin:
  "fgt (foldl fmin x xs) (Fin 0) \<longleftrightarrow> fgt x (Fin 0) \<and> list_all (\<lambda>y. fgt y (Fin 0)) xs"
  by (induction xs arbitrary: x) (auto simp: fgt_fmin)

lemma tensor_min_pos:
  "tensor_min xs = Inr m \<Longrightarrow> fgt m (Fin 0) \<longleftrightarrow> list_all (\<lambda>y. fgt y (Fin 0)) xs"
  by (cases xs) (auto simp: fgt_foldl_fmin)












lemma fadd_Fin_D: "fadd x y = Fin s \<Longrightarrow> (\<exists>a b. x = Fin a \<and> y = Fin b)"
  by (cases x; cases y) auto

lemma fsum_Fin_D: "fsum xs = Fin s \<Longrightarrow> list_all (\<lambda>x. case x of Fin a \<Rightarrow> True | _ \<Rightarrow> False) xs"
proof (induction xs arbitrary: s)
  case Nil then show ?case by simp
next
  case (Cons x xs)
  from Cons.prems obtain a b where "x = Fin a" "fsum xs = Fin b"
    using fadd_Fin_D[of x "fsum xs" s] by auto
  with Cons.IH show ?case by auto
qed

lemma stochastic_positive_posfin:
  assumes "fsum row = Fin 1" "list_all (\<lambda>x. fgt x (Fin 0)) row"
  shows "list_all posfin row"
proof -
  have "list_all (\<lambda>x. case x of Fin a \<Rightarrow> True | _ \<Rightarrow> False) row"
    using assms(1) by (rule fsum_Fin_D)
  with assms(2) show ?thesis
    by (auto simp: list_all_iff posfin_def split: fl.splits)
qed

lemma weight_posfin:
  assumes M: "is_matrix n k Q" and pf: "list_all (list_all posfin) Q"
  shows "list_all (list_all posfin) (weight Q)"
proof -
  have col: "\<exists>s. col_sum Q j = Fin s \<and> 0 < s" if "j < k" "Q \<noteq> []" for j
  proof -
    have "list_all posfin (map (\<lambda>row. row ! j) Q)"
      using M pf that by (auto simp: is_matrix_def list_all_iff)
    then show ?thesis
      using fsum_posfin[of "map (\<lambda>row. row ! j) Q"] fsum_posfin_pos[of "map (\<lambda>row. row ! j) Q"] that
      by (auto simp: col_sum_def)
  qed
  show ?thesis
    unfolding weight_def list_all_iff
  proof (intro ballI)
    fix r x
    assume r: "r \<in> set (map (\<lambda>row. map (\<lambda>j. fdiv (fsq (row ! j)) (col_sum Q j)) [0..<length row]) Q)"
      and x: "x \<in> set r"
    then obtain row j where row: "row \<in> set Q" "j < length row"
      "x = fdiv (fsq (row ! j)) (col_sum Q j)" by auto
    have jk: "j < k" using row M by (auto simp: is_matrix_def list_all_iff)
    have "Q \<noteq> []" using row by auto
    from col[OF jk this] obtain s where s: "col_sum Q j = Fin s" "0 < s" by blast
    have "posfin (row ! j)" using pf row by (auto simp: list_all_iff)
    then obtain a where a: "row ! j = Fin a" "0 < a" by (auto simp: posfin_iff)
    show "posfin x" using row(3) s a by (simp add: posfin_def)
  qed
qed


lemma fadd_nan_or_pinf_l: "nan_or_pinf x \<Longrightarrow> nan_or_pinf (fadd x y)"
  by (cases x; cases y) (auto simp: nan_or_pinf_def)
lemma fadd_nan_or_pinf_r: "nan_or_pinf y \<Longrightarrow> nan_or_pinf (fadd x y)"
  by (cases x; cases y) (auto simp: nan_or_pinf_def)

lemma fsum_nan_or_pinf: "x \<in> set xs \<Longrightarrow> nan_or_pinf x \<Longrightarrow> nan_or_pinf (fsum xs)"
  by (induction xs) (auto simp: fadd_nan_or_pinf_l fadd_nan_or_pinf_r)

lemma fdiv_zero: "nan_or_pinf (fdiv (fsq x) (Fin 0))"
  by (cases x) (auto simp: nan_or_pinf_def)

lemma fdiv_nan_or_pinf: "nan_or_pinf x \<Longrightarrow> nan_or_pinf y \<Longrightarrow> fdiv x y = NaN"
  by (auto simp: nan_or_pinf_def)







section \<open>Claims about the soft assignment and the target distribution\<close>



text \<open>
  Claim C3. For a row-stochastic matrix \<open>Q\<close> (\<open>n \<times> k\<close>) whose entries are all
  strictly positive, every row of \<^verbatim>\<open>target_distribution(Q)\<close> sums to 1.
\<close>

theorem target_distribution_row_stochastic:
  assumes M: "is_matrix n k Q" and rs: "row_stochastic Q" and pos: "positive_entries Q"
  shows "row_stochastic (target_distribution Q)"
proof -
  have pf: "list_all (list_all posfin) Q"
    using rs pos stochastic_positive_posfin
    by (auto simp: row_stochastic_def positive_entries_def list_all_iff)
  have ne: "row \<noteq> []" if "row \<in> set Q" for row
    using rs that by (auto simp: row_stochastic_def list_all_iff)
  have W: "list_all (list_all posfin) (weight Q)"
    using weight_posfin[OF M pf] .
  have Wne: "w \<noteq> []" if "w \<in> set (weight Q)" for w
    using that ne by (auto simp: weight_def)
  show ?thesis
    unfolding target_distribution_def row_stochastic_def row_normalize_def
    using W Wne normalize_row(1) by (auto simp: list_all_iff)
qed

theorem target_distribution_row_stochastic_witness:
  "is_matrix 2 2 [[Fin (1/4), Fin (3/4)], [Fin (1/2), Fin (1/2)]]
   \<and> row_stochastic [[Fin (1/4), Fin (3/4)], [Fin (1/2), Fin (1/2)]]
   \<and> positive_entries [[Fin (1/4), Fin (3/4)], [Fin (1/2), Fin (1/2)]]
   \<and> target_distribution [[Fin (1/4), Fin (3/4)], [Fin (1/2), Fin (1/2)]] = [[Fin (5/32), Fin (27/32)], [Fin (5/8), Fin (3/8)]]
   \<and> row_stochastic (target_distribution [[Fin (1/4), Fin (3/4)], [Fin (1/2), Fin (1/2)]])"
proof -
  let ?Q = "[[Fin (1/4), Fin (3/4)], [Fin (1/2), Fin (1/2)]]"
  have a: "is_matrix 2 2 ?Q" by (simp add: is_matrix_def)
  have b: "row_stochastic ?Q" by (simp add: row_stochastic_def)
  have c: "positive_entries ?Q" by (simp add: positive_entries_def)
  have d: "target_distribution ?Q = [[Fin (5/32), Fin (27/32)], [Fin (5/8), Fin (3/8)]]"
    by (simp add: target_distribution_def row_normalize_def weight_def col_sum_def)
  show ?thesis using a b c d target_distribution_row_stochastic[OF a b c] by simp
qed



text \<open>
  Claim C5 says that \<^verbatim>\<open>target_distribution\<close> aborts with a division-by-zero error
  when a column of \<open>Q\<close> sums to zero. The code has no check and tensor division does
  not raise: with two samples both assigned wholly to the second of two clusters the
  call returns a matrix of NaN.
\<close>

theorem target_distribution_empty_cluster_returns_nan:
  "col_sum [[Fin 0, Fin 1], [Fin 0, Fin 1]] 0 = Fin 0
   \<and> target_distribution [[Fin 0, Fin 1], [Fin 0, Fin 1]] = [[NaN, NaN], [NaN, NaN]]"
  by (simp add: target_distribution_def row_normalize_def weight_def col_sum_def)

text \<open>
  Claim C5 as amended. When column \<open>j\<close> of \<open>Q\<close> (\<open>n \<times> k\<close>) sums to zero,
  \<^verbatim>\<open>target_distribution\<close> raises nothing and returns a matrix whose column \<open>j\<close> is
  NaN in every row.
\<close>

theorem target_distribution_empty_cluster:
  assumes M: "is_matrix n k Q" and j: "j < k" and z: "col_sum Q j = Fin 0" and i: "i < n"
  shows "target_distribution Q ! i ! j = NaN"
proof -
  let ?row = "Q ! i"
  let ?w = "map (\<lambda>j. fdiv (fsq (?row ! j)) (col_sum Q j)) [0..<length ?row]"
  have len: "length ?row = k" "i < length Q" using M i by (auto simp: is_matrix_def list_all_iff)
  have wj: "?w ! j = fdiv (fsq (?row ! j)) (Fin 0)" using len j z by simp
  then have nj: "nan_or_pinf (?w ! j)" by (simp add: fdiv_zero)
  have "?w ! j \<in> set ?w" using len j by (intro nth_mem) simp
  then have ns: "nan_or_pinf (fsum ?w)" using nj by (rule fsum_nan_or_pinf)
  have "target_distribution Q ! i ! j = fdiv (?w ! j) (fsum ?w)"
    using len j by (simp add: target_distribution_def row_normalize_def weight_def)
  then show ?thesis using fdiv_nan_or_pinf[OF nj ns] by simp
qed

theorem target_distribution_empty_cluster_witness:
  "is_matrix 2 2 [[Fin 1, Fin 1], [Fin (- 1), Fin 1]]
   \<and> col_sum [[Fin 1, Fin 1], [Fin (- 1), Fin 1]] 0 = Fin 0
   \<and> target_distribution [[Fin 1, Fin 1], [Fin (- 1), Fin 1]] ! 1 ! 0 = NaN"
proof -
  let ?Q = "[[Fin 1, Fin 1], [Fin (- 1), Fin 1]]"
  have a: "is_matrix 2 2 ?Q" by (simp add: is_matrix_def)
  have b: "col_sum ?Q 0 = Fin 0" by (simp add: col_sum_def)
  show ?thesis using a b target_distribution_empty_cluster[OF a _ b, of 1] by simp
qed




section \<open>Facts about the label alignment\<close>






















lemma list_set_ok_D:
  "list_set_ok ls \<Longrightarrow> distinct (ls xs)" "list_set_ok ls \<Longrightarrow> set (ls xs) = set xs"
  "list_set_ok ls \<Longrightarrow> length (ls xs) = card (set xs)"
  by (auto simp: list_set_ok_def distinct_card[symmetric])


lemma np_min_shifted: "y_true \<noteq> [] \<Longrightarrow> np_min y_true = Inr (foldl min (hd y_true) (tl y_true))"
  by (cases y_true) auto

lemma shifted_props:
  "length (shifted y) = length y" "card (set (shifted y)) = card (set y)"
  "(shifted y = []) = (y = [])"
proof -
  show "length (shifted y) = length y" "(shifted y = []) = (y = [])"
    by (simp_all add: shifted_def)
  have "inj_on (\<lambda>x. x - foldl min (hd y) (tl y)) (set y)" by (auto simp: inj_on_def)
  then show "card (set (shifted y)) = card (set y)"
    by (simp add: shifted_def card_image)
qed

lemma cluster_acc_equal:
  assumes ls: "list_set_ok ls" and ne: "y_true \<noteq> []"
    and card: "card (set y_true) = card (set y_pred)"
  shows "cluster_acc ls mk y_true y_pred
         = (let (out, res) = align ls mk (shifted y_true) (ls (shifted y_true)) y_pred
            in \<lparr>y_pred_after = y_pred, printed = out, outcome = res\<rparr>)"
proof -
  have "length (ls (shifted y_true)) = length (ls y_pred)"
    using list_set_ok_D(3)[OF ls] shifted_props(2) card by simp
  then show ?thesis
    using np_min_shifted[OF ne]
    by (simp add: cluster_acc_def Let_def shifted_def)
qed






lemma remdups_ok: "list_set_ok remdups"
  by (simp add: list_set_ok_def)












lemma cluster_acc_unchanged:
  assumes ls: "list_set_ok ls" and card: "card (set y_true) = card (set y_pred)"
  shows "y_pred_after (cluster_acc ls mk y_true y_pred) = y_pred"
proof (cases "y_true = []")
  case True then show ?thesis by (simp add: cluster_acc_def)
next
  case False
  show ?thesis
    unfolding cluster_acc_equal[OF ls False card]
    by (simp add: Let_def split: prod.splits)
qed













section \<open>Claims about \<^verbatim>\<open>cluster_acc\<close>\<close>











text \<open>
  Claim C10. When the two arrays have the same number of distinct labels on entry,
  the call leaves the store as it was, so \<^verbatim>\<open>y_pred\<close> is unchanged element for element;
  and the caller's \<^verbatim>\<open>y_true\<close> array is never changed, also when both arguments are
  the same array. In the instance below the second call has 3 true and 2 predicted
  labels and does overwrite \<^verbatim>\<open>y_pred\<close>.
\<close>

theorem cluster_acc_frame:
  assumes ls: "list_set_ok ls"
  shows "(card (set (s a_true)) = card (set (s a_pred)) \<longrightarrow>
            fst (cluster_acc_call ls mk s a_true a_pred) = s)
         \<and> fst (cluster_acc_call ls mk s a_true a_pred) a_true = s a_true"
proof
  show "card (set (s a_true)) = card (set (s a_pred)) \<longrightarrow>
            fst (cluster_acc_call ls mk s a_true a_pred) = s"
    using cluster_acc_unchanged[OF ls, of "s a_true" "s a_pred" mk]
    by (simp add: cluster_acc_call_def Let_def)
  show "fst (cluster_acc_call ls mk s a_true a_pred) a_true = s a_true"
  proof (cases "a_true = a_pred")
    case True
    then show ?thesis
      using cluster_acc_unchanged[OF ls, of "s a_true" "s a_pred" mk]
      by (simp add: cluster_acc_call_def Let_def)
  next
    case False
    then show ?thesis by (simp add: cluster_acc_call_def Let_def)
  qed
qed

theorem cluster_acc_frame_witness:
  "fst (cluster_acc_call remdups exhaustive_solver
          (\<lambda>a. if a = 0 then [0, 0, 1, 1] else [5, 5, 7, 7]) 0 1)
     = (\<lambda>a. if a = 0 then [0, 0, 1, 1] else [5, 5, 7, 7])
   \<and> fst (cluster_acc_call remdups exhaustive_solver
          (\<lambda>a. if a = 0 then [0, 1, 2] else [0, 0, 3]) 0 1) 0 = [0, 1, 2]
   \<and> fst (cluster_acc_call remdups exhaustive_solver
          (\<lambda>a. if a = 0 then [0, 1, 2] else [0, 0, 3]) 0 1) 1 = [1, 2, 3]"
proof -
  let ?s = "\<lambda>a::nat. if a = 0 then [0, 0, 1, 1] else [5, 5, 7, 7 :: int]"
  let ?s2 = "\<lambda>a::nat. if a = 0 then [0, 1, 2] else [0, 0, 3 :: int]"
  have "card (set (?s 0)) = card (set (?s 1))" by simp
  then have a: "fst (cluster_acc_call remdups exhaustive_solver ?s 0 1) = ?s"
    using cluster_acc_frame[OF remdups_ok, of ?s 0 1 exhaustive_solver] by blast
  have b: "fst (cluster_acc_call remdups exhaustive_solver ?s2 0 1) 0 = [0, 1, 2]"
    using cluster_acc_frame[OF remdups_ok, of ?s2 0 1 exhaustive_solver] by simp
  have c: "fst (cluster_acc_call remdups exhaustive_solver ?s2 0 1) 1 = [1, 2, 3]"
    by code_simp
  show ?thesis using a b c by simp
qed

end
